theory Spec2Isabelle
  imports Main "HOL-Library.Sublist"
begin

section \<open>The document model of package uslm\<close>

text \<open>
  Every Go struct of the package becomes a record (or, where the struct takes part in a
  recursion, a datatype with the field names as selectors). A Go \<^verbatim>\<open>string\<close> is a
  \<^typ>\<open>string\<close>, a pointer field \<^verbatim>\<open>*T\<close> is a \<^typ>\<open>'a option\<close> (\<^term>\<open>None\<close> is the nil
  pointer), and a slice \<^verbatim>\<open>[]T\<close> is a list whose empty value \<^term>\<open>[]\<close> stands for the nil
  slice. Field order and field names are those of the declarations.
\<close>

subsection \<open>\<^verbatim>\<open>xml.Name\<close> and the inline elements of common.go\<close>

record Name =
  Space :: string
  Local :: string

record Inline =
  XMLName :: Name
  Class :: string
  Role :: string
  Text :: string

record Italic =
  XMLName :: Name
  Text :: string

record Bold =
  XMLName :: Name
  Text :: string

record Sup =
  XMLName :: Name
  Text :: string

record Sub =
  XMLName :: Name
  Text :: string

record Term =
  XMLName :: Name
  Text :: string

datatype Ref = Ref (XMLName: Name) (Href: string) (Text: string) (InnerRef: "Ref option")

record P =
  XMLName :: Name
  Class :: string
  Text :: string

record MixedContent =
  Text :: string
  Inline :: "Inline list"
  I :: "Italic list"
  B :: "Bold list"
  Sup :: "Sup list"
  Sub :: "Sub list"
  Term :: "Term list"
  Ref :: "Ref list"
  P :: "P list"

record ShortTitle =
  XMLName :: Name
  Role :: string
  Text :: string

record QuotedText =
  XMLName :: Name
  Text :: string

record AmendingAction =
  XMLName :: Name
  Type :: string
  Text :: string

record Num =
  XMLName :: Name
  Value :: string
  Text :: string

record Heading =
  XMLName :: Name
  Class :: string
  Text :: string
  Inline :: "Inline list"

record Chapeau =
  XMLName :: Name
  Class :: string
  Text :: string
  Inline :: "Inline list"
  Ref :: "Ref list"
  AmendingAction :: "AmendingAction list"

subsection \<open>The section hierarchy of content.go and common.go\<close>

text \<open>
  \<^verbatim>\<open>Content\<close> embeds \<^verbatim>\<open>QuotedContent\<close> and \<^verbatim>\<open>AmendmentContent\<close>, which hold sections again,
  so the nine structs are declared together.
\<close>

datatype Content = Content
    (XMLName: Name) (Class: string) (Text: string) (Inline: "Inline list") (I: "Italic list")
    (Ref: "Ref list") (ShortTitle: "ShortTitle list") (QuotedText: "QuotedText list")
    (AmendingAction: "AmendingAction list") (QuotedContent: "QuotedContent list")
    (AmendmentContent: "AmendmentContent list")
and QuotedContent = QuotedContent
    (XMLName: Name) (ID: string) (StyleType: string) (Paragraph: "Paragraph list")
    (Subsection: "Subsection list") (Section: "Section list")
and AmendmentContent = AmendmentContent
    (XMLName: Name) (Class: string) (Changed: string) (StyleType: string)
    (Section: "Section list")
and Section = Section
    (XMLName: Name) (ID: string) (Identifier: string) (Role: string) (Class: string)
    (Num: "Num option") (Heading: "Heading option") (Chapeau: "Chapeau option")
    (Content: "Content option") (Paragraphs: "Paragraph list")
    (Subsections: "Subsection list")
and Subsection = Subsection
    (XMLName: Name) (ID: string) (Identifier: string) (Class: string)
    (Num: "Num option") (Heading: "Heading option") (Chapeau: "Chapeau option")
    (Content: "Content option") (Paragraphs: "Paragraph list")
and Paragraph = Paragraph
    (XMLName: Name) (ID: string) (Identifier: string) (Class: string) (Role: string)
    (Num: "Num option") (Heading: "Heading option") (Chapeau: "Chapeau option")
    (Content: "Content option") (Subparagraphs: "Subparagraph list")
and Subparagraph = Subparagraph
    (XMLName: Name) (ID: string) (Identifier: string) (Class: string)
    (Num: "Num option") (Chapeau: "Chapeau option") (Content: "Content option")
    (Clauses: "Clause list")
and Clause = Clause
    (XMLName: Name) (ID: string) (Identifier: string) (Class: string)
    (Num: "Num option") (Content: "Content option") (Subclauses: "Subclause list")
and Subclause = Subclause
    (XMLName: Name) (ID: string) (Identifier: string) (Class: string)
    (Num: "Num option") (Content: "Content option")

record LongTitle =
  XMLName :: Name
  DocTitle :: string
  OfficialTitle :: string

record EnactingFormula =
  XMLName :: Name
  Text :: string
  I :: "Italic list"

record ReferenceItem =
  XMLName :: Name
  Role :: string
  Designator :: string
  Label :: string

record TOC =
  XMLName :: Name
  ReferenceItem :: "ReferenceItem list"

record Recital =
  XMLName :: Name
  Text :: string
  P :: "P list"
  Paragraphs :: "Paragraph list"

record ResolvingClause =
  XMLName :: Name
  Class :: string
  Text :: string
  I :: "Italic list"

record Preamble =
  XMLName :: Name
  Recitals :: "Recital list"
  ResolvingClause :: "ResolvingClause option"

record Title =
  XMLName :: Name
  ID :: string
  Num :: "Num option"
  Heading :: "Heading option"
  Sections :: "Section list"

record Main =
  XMLName :: Name
  StyleType :: string
  LongTitle :: "LongTitle option"
  EnactingFormula :: "EnactingFormula option"
  TOC :: "TOC option"
  Preamble :: "Preamble option"
  Sections :: "Section list"
  Titles :: "Title list"
  EndMarker :: string

record AmendmentInstruction =
  XMLName :: Name
  Num :: "Num option"
  Content :: "Content option"

record Notation =
  XMLName :: Name
  Type :: string
  Text :: string

record Signature =
  XMLName :: Name
  Notation :: "Notation option"
  Role :: string
  Text :: string

record Signatures =
  XMLName :: Name
  Signature :: "Signature list"

subsection \<open>preface.go\<close>

record DistributionCode =
  XMLName :: Name
  Display :: string
  Text :: string

record CongressElement =
  XMLName :: Name
  Value :: string
  Text :: string

record SessionElement =
  XMLName :: Name
  Value :: string
  Text :: string

record CurrentChamber =
  XMLName :: Name
  Value :: string
  Text :: string

record ActionDate =
  XMLName :: Name
  Date :: string
  Text :: string
  Inline :: "Inline list"

record Sponsor =
  XMLName :: Name
  SenateID :: string
  HouseID :: string
  Text :: string
  Inline :: "Inline list"

record Cosponsor =
  XMLName :: Name
  SenateID :: string
  HouseID :: string
  Text :: string
  Inline :: "Inline list"

record Committee =
  XMLName :: Name
  CommitteeID :: string
  Text :: string

record ActionDescription =
  XMLName :: Name
  Text :: string
  Sponsors :: "Sponsor list"
  Cosponsors :: "Cosponsor list"
  Committees :: "Committee list"
  Inline :: "Inline list"

record Action =
  XMLName :: Name
  ActionStage :: string
  Date :: "ActionDate option"
  ActionDescription :: "ActionDescription option"
  ActionInstruction :: string

record Preface =
  XMLName :: Name
  SlugLine :: string
  DistributionCode :: "DistributionCode option"
  Congress :: "CongressElement option"
  Session :: "SessionElement option"
  DCType :: string
  DocNumber :: string
  DCTitle :: string
  CurrentChamber :: "CurrentChamber option"
  Actions :: "Action list"

record AmendPreface =
  XMLName :: Name
  SlugLine :: string
  CurrentChamber :: "CurrentChamber option"
  Actions :: "Action list"

record Endorsement =
  XMLName :: Name
  Orientation :: string
  Congress :: "CongressElement option"
  Session :: "SessionElement option"
  DCType :: string
  DocNumber :: string
  DocTitle :: string

record AmendMain =
  XMLName :: Name
  AmendmentInstructionLineNumbering :: string
  ResolvingClause :: "ResolvingClause option"
  Sections :: "Section list"
  DocTitle :: string
  AmendmentInstructions :: "AmendmentInstruction list"
  Signatures :: "Signatures option"
  Endorsement :: "Endorsement option"

subsection \<open>The metadata blocks\<close>

record RelatedDocument =
  XMLName :: Name
  Role :: string
  Href :: string
  Text :: string

record Meta =
  XMLName :: Name
  DCTitle :: string
  DCType :: string
  DCCreator :: string
  DCPublisher :: string
  DCFormat :: string
  DCLanguage :: string
  DCRights :: string
  DocNumber :: string
  CitableAs :: "string list"
  DocStage :: string
  CurrentChamber :: string
  Congress :: string
  Session :: string
  PublicPrivate :: string
  ProcessedBy :: string
  ProcessedDate :: string
  RelatedDocuments :: "RelatedDocument list"
  PopularName :: string

record AmendMeta =
  XMLName :: Name
  DCTitle :: string
  DCType :: string
  DCCreator :: string
  DCPublisher :: string
  DCFormat :: string
  DCLanguage :: string
  DCRights :: string
  DocNumber :: string
  CitableAs :: "string list"
  DocStage :: string
  CurrentChamber :: string
  AmendDegree :: string
  Congress :: string
  Session :: string
  PublicPrivate :: string
  ProcessedBy :: string
  ProcessedDate :: string

subsection \<open>The four document variants\<close>

record Bill =
  XMLName :: Name
  XMLNS :: string
  XMLNSDC :: string
  XMLNSHTML :: string
  XMLNSUSLM :: string
  XMLNSXSI :: string
  XSISchemaLocation :: string
  XMLLang :: string
  Meta :: "Meta option"
  Preface :: "Preface option"
  Main :: "Main option"
  EndMarker :: string

record Resolution =
  XMLName :: Name
  XMLNS :: string
  XMLNSDC :: string
  XMLNSHTML :: string
  XMLNSUSLM :: string
  XMLNSXSI :: string
  XSISchemaLocation :: string
  XMLLang :: string
  Meta :: "Meta option"
  Preface :: "Preface option"
  Main :: "Main option"
  EndMarker :: string

record EngrossedAmendment =
  XMLName :: Name
  XMLNS :: string
  XMLNSDC :: string
  XMLNSHTML :: string
  XMLNSUSLM :: string
  XMLNSXSI :: string
  StyleType :: string
  XSISchemaLocation :: string
  XMLLang :: string
  AmendMeta :: "AmendMeta option"
  AmendPreface :: "AmendPreface option"
  AmendMain :: "AmendMain option"
  Signatures :: "Signatures option"
  Endorsement :: "Endorsement option"

record Amendment =
  XMLName :: Name
  XMLNS :: string
  XMLNSDC :: string
  XMLNSHTML :: string
  XMLNSUSLM :: string
  XMLNSXSI :: string
  XSISchemaLocation :: string
  XMLLang :: string
  AmendMeta :: "AmendMeta option"
  AmendPreface :: "AmendPreface option"
  AmendMain :: "AmendMain option"

section \<open>Element accessors\<close>

text \<open>
  The methods have pointer receivers; a method called on a document that exists reads its
  fields, so each accessor is a function of the struct value. A test \<^verbatim>\<open>x != nil\<close> on a
  pointer field is a case distinction on the option, a test \<^verbatim>\<open>s != ""\<close> a comparison with
  the empty string.
\<close>

definition Heading_GetText :: "Heading \<Rightarrow> string" where
  "Heading_GetText h = Heading.Text h"

definition Sponsor_GetID :: "Sponsor \<Rightarrow> string" where
  "Sponsor_GetID s =
     (if Sponsor.SenateID s \<noteq> '''' then Sponsor.SenateID s else Sponsor.HouseID s)"

definition Sponsor_GetName :: "Sponsor \<Rightarrow> string" where
  "Sponsor_GetName s = Sponsor.Text s"

definition Cosponsor_GetID :: "Cosponsor \<Rightarrow> string" where
  "Cosponsor_GetID c =
     (if Cosponsor.SenateID c \<noteq> '''' then Cosponsor.SenateID c else Cosponsor.HouseID c)"

definition Cosponsor_GetName :: "Cosponsor \<Rightarrow> string" where
  "Cosponsor_GetName c = Cosponsor.Text c"

definition Committee_GetID :: "Committee \<Rightarrow> string" where
  "Committee_GetID c = Committee.CommitteeID c"

definition Committee_GetName :: "Committee \<Rightarrow> string" where
  "Committee_GetName c = Committee.Text c"

definition Section_GetID :: "Section \<Rightarrow> string" where
  "Section_GetID s = Section.ID s"

definition Section_GetIdentifier :: "Section \<Rightarrow> string" where
  "Section_GetIdentifier s = Section.Identifier s"

definition Section_GetNum :: "Section \<Rightarrow> string" where
  "Section_GetNum s = (case Section.Num s of Some n \<Rightarrow> Num.Text n | None \<Rightarrow> '''')"

definition Section_GetNumValue :: "Section \<Rightarrow> string" where
  "Section_GetNumValue s = (case Section.Num s of Some n \<Rightarrow> Num.Value n | None \<Rightarrow> '''')"

definition Section_GetHeading :: "Section \<Rightarrow> string" where
  "Section_GetHeading s =
     (case Section.Heading s of Some h \<Rightarrow> Heading_GetText h | None \<Rightarrow> '''')"

definition Section_GetContent :: "Section \<Rightarrow> string" where
  "Section_GetContent s =
     (case Section.Content s of Some c \<Rightarrow> Content.Text c | None \<Rightarrow> '''')"

definition Section_GetChapeau :: "Section \<Rightarrow> string" where
  "Section_GetChapeau s =
     (case Section.Chapeau s of Some c \<Rightarrow> Chapeau.Text c | None \<Rightarrow> '''')"

section \<open>Document accessors\<close>

text \<open>
  The loops of \<^verbatim>\<open>GetSponsors\<close>, \<^verbatim>\<open>GetCosponsors\<close> and \<^verbatim>\<open>GetCommittees\<close> run over the actions
  of the preface in order and append to a slice that starts nil; the accumulator is the
  first argument.
\<close>

fun append_sponsors :: "Sponsor list \<Rightarrow> Action list \<Rightarrow> Sponsor list" where
  "append_sponsors sponsors [] = sponsors"
| "append_sponsors sponsors (action # rest) =
     (case Action.ActionDescription action of
        Some d \<Rightarrow> append_sponsors (sponsors @ ActionDescription.Sponsors d) rest
      | None \<Rightarrow> append_sponsors sponsors rest)"

fun append_cosponsors :: "Cosponsor list \<Rightarrow> Action list \<Rightarrow> Cosponsor list" where
  "append_cosponsors cosponsors [] = cosponsors"
| "append_cosponsors cosponsors (action # rest) =
     (case Action.ActionDescription action of
        Some d \<Rightarrow> append_cosponsors (cosponsors @ ActionDescription.Cosponsors d) rest
      | None \<Rightarrow> append_cosponsors cosponsors rest)"

fun append_committees :: "Committee list \<Rightarrow> Action list \<Rightarrow> Committee list" where
  "append_committees committees [] = committees"
| "append_committees committees (action # rest) =
     (case Action.ActionDescription action of
        Some d \<Rightarrow> append_committees (committees @ ActionDescription.Committees d) rest
      | None \<Rightarrow> append_committees committees rest)"


subsection \<open>Bill\<close>

definition Bill_GetDocumentNumber :: "Bill \<Rightarrow> string" where
  "Bill_GetDocumentNumber d =
     (case Bill.Meta d of Some m \<Rightarrow> Meta.DocNumber m | None \<Rightarrow> '''')"

definition Bill_GetDocumentType :: "Bill \<Rightarrow> string" where
  "Bill_GetDocumentType d =
     (case Bill.Meta d of Some m \<Rightarrow> Meta.DCType m | None \<Rightarrow> '''')"

definition Bill_GetCongress :: "Bill \<Rightarrow> string" where
  "Bill_GetCongress d =
     (case Bill.Meta d of Some m \<Rightarrow> Meta.Congress m | None \<Rightarrow> '''')"

definition Bill_GetSession :: "Bill \<Rightarrow> string" where
  "Bill_GetSession d =
     (case Bill.Meta d of Some m \<Rightarrow> Meta.Session m | None \<Rightarrow> '''')"

definition Bill_GetTitle :: "Bill \<Rightarrow> string" where
  "Bill_GetTitle d =
     (case Bill.Meta d of Some m \<Rightarrow> Meta.DCTitle m | None \<Rightarrow> '''')"

definition Bill_GetStage :: "Bill \<Rightarrow> string" where
  "Bill_GetStage d =
     (case Bill.Meta d of Some m \<Rightarrow> Meta.DocStage m | None \<Rightarrow> '''')"

definition Bill_GetChamber :: "Bill \<Rightarrow> string" where
  "Bill_GetChamber d =
     (case Bill.Meta d of Some m \<Rightarrow> Meta.CurrentChamber m | None \<Rightarrow> '''')"

definition Bill_IsPublic :: "Bill \<Rightarrow> bool" where
  "Bill_IsPublic d =
     (case Bill.Meta d of Some m \<Rightarrow> Meta.PublicPrivate m = ''public'' | None \<Rightarrow> False)"

definition Bill_GetCitations :: "Bill \<Rightarrow> string list" where
  "Bill_GetCitations d =
     (case Bill.Meta d of Some m \<Rightarrow> Meta.CitableAs m | None \<Rightarrow> [])"

definition Bill_GetSponsors :: "Bill \<Rightarrow> Sponsor list" where
  "Bill_GetSponsors d =
     (case Bill.Preface d of Some p \<Rightarrow> append_sponsors [] (Preface.Actions p) | None \<Rightarrow> [])"

definition Bill_GetCosponsors :: "Bill \<Rightarrow> Cosponsor list" where
  "Bill_GetCosponsors d =
     (case Bill.Preface d of Some p \<Rightarrow> append_cosponsors [] (Preface.Actions p) | None \<Rightarrow> [])"

definition Bill_GetActions :: "Bill \<Rightarrow> Action list" where
  "Bill_GetActions d =
     (case Bill.Preface d of Some p \<Rightarrow> Preface.Actions p | None \<Rightarrow> [])"

definition Bill_GetCommittees :: "Bill \<Rightarrow> Committee list" where
  "Bill_GetCommittees d =
     (case Bill.Preface d of Some p \<Rightarrow> append_committees [] (Preface.Actions p) | None \<Rightarrow> [])"

definition Bill_GetSections :: "Bill \<Rightarrow> Section list" where
  "Bill_GetSections d =
     (case Bill.Main d of Some m \<Rightarrow> Main.Sections m | None \<Rightarrow> [])"

definition Bill_GetCreator :: "Bill \<Rightarrow> string" where
  "Bill_GetCreator d =
     (case Bill.Meta d of Some m \<Rightarrow> Meta.DCCreator m | None \<Rightarrow> '''')"

definition Bill_GetPublisher :: "Bill \<Rightarrow> string" where
  "Bill_GetPublisher d =
     (case Bill.Meta d of Some m \<Rightarrow> Meta.DCPublisher m | None \<Rightarrow> '''')"

definition Bill_GetLanguage :: "Bill \<Rightarrow> string" where
  "Bill_GetLanguage d =
     (case Bill.Meta d of Some m \<Rightarrow> Meta.DCLanguage m | None \<Rightarrow> '''')"

definition Bill_GetRights :: "Bill \<Rightarrow> string" where
  "Bill_GetRights d =
     (case Bill.Meta d of Some m \<Rightarrow> Meta.DCRights m | None \<Rightarrow> '''')"

definition Bill_GetProcessedBy :: "Bill \<Rightarrow> string" where
  "Bill_GetProcessedBy d =
     (case Bill.Meta d of Some m \<Rightarrow> Meta.ProcessedBy m | None \<Rightarrow> '''')"

definition Bill_GetProcessedDate :: "Bill \<Rightarrow> string" where
  "Bill_GetProcessedDate d =
     (case Bill.Meta d of Some m \<Rightarrow> Meta.ProcessedDate m | None \<Rightarrow> '''')"

subsection \<open>Resolution\<close>

definition Resolution_GetDocumentNumber :: "Resolution \<Rightarrow> string" where
  "Resolution_GetDocumentNumber d =
     (case Resolution.Meta d of Some m \<Rightarrow> Meta.DocNumber m | None \<Rightarrow> '''')"

definition Resolution_GetDocumentType :: "Resolution \<Rightarrow> string" where
  "Resolution_GetDocumentType d =
     (case Resolution.Meta d of Some m \<Rightarrow> Meta.DCType m | None \<Rightarrow> '''')"

definition Resolution_GetCongress :: "Resolution \<Rightarrow> string" where
  "Resolution_GetCongress d =
     (case Resolution.Meta d of Some m \<Rightarrow> Meta.Congress m | None \<Rightarrow> '''')"

definition Resolution_GetSession :: "Resolution \<Rightarrow> string" where
  "Resolution_GetSession d =
     (case Resolution.Meta d of Some m \<Rightarrow> Meta.Session m | None \<Rightarrow> '''')"

definition Resolution_GetTitle :: "Resolution \<Rightarrow> string" where
  "Resolution_GetTitle d =
     (case Resolution.Meta d of Some m \<Rightarrow> Meta.DCTitle m | None \<Rightarrow> '''')"

definition Resolution_GetStage :: "Resolution \<Rightarrow> string" where
  "Resolution_GetStage d =
     (case Resolution.Meta d of Some m \<Rightarrow> Meta.DocStage m | None \<Rightarrow> '''')"

definition Resolution_GetChamber :: "Resolution \<Rightarrow> string" where
  "Resolution_GetChamber d =
     (case Resolution.Meta d of Some m \<Rightarrow> Meta.CurrentChamber m | None \<Rightarrow> '''')"

definition Resolution_IsPublic :: "Resolution \<Rightarrow> bool" where
  "Resolution_IsPublic d =
     (case Resolution.Meta d of Some m \<Rightarrow> Meta.PublicPrivate m = ''public'' | None \<Rightarrow> False)"

definition Resolution_GetCitations :: "Resolution \<Rightarrow> string list" where
  "Resolution_GetCitations d =
     (case Resolution.Meta d of Some m \<Rightarrow> Meta.CitableAs m | None \<Rightarrow> [])"

definition Resolution_GetSponsors :: "Resolution \<Rightarrow> Sponsor list" where
  "Resolution_GetSponsors d =
     (case Resolution.Preface d of Some p \<Rightarrow> append_sponsors [] (Preface.Actions p) | None \<Rightarrow> [])"

definition Resolution_GetCosponsors :: "Resolution \<Rightarrow> Cosponsor list" where
  "Resolution_GetCosponsors d =
     (case Resolution.Preface d of Some p \<Rightarrow> append_cosponsors [] (Preface.Actions p) | None \<Rightarrow> [])"

definition Resolution_GetActions :: "Resolution \<Rightarrow> Action list" where
  "Resolution_GetActions d =
     (case Resolution.Preface d of Some p \<Rightarrow> Preface.Actions p | None \<Rightarrow> [])"

definition Resolution_GetCommittees :: "Resolution \<Rightarrow> Committee list" where
  "Resolution_GetCommittees d =
     (case Resolution.Preface d of Some p \<Rightarrow> append_committees [] (Preface.Actions p) | None \<Rightarrow> [])"

definition Resolution_GetSections :: "Resolution \<Rightarrow> Section list" where
  "Resolution_GetSections d =
     (case Resolution.Main d of Some m \<Rightarrow> Main.Sections m | None \<Rightarrow> [])"

definition Resolution_GetCreator :: "Resolution \<Rightarrow> string" where
  "Resolution_GetCreator d =
     (case Resolution.Meta d of Some m \<Rightarrow> Meta.DCCreator m | None \<Rightarrow> '''')"

definition Resolution_GetPublisher :: "Resolution \<Rightarrow> string" where
  "Resolution_GetPublisher d =
     (case Resolution.Meta d of Some m \<Rightarrow> Meta.DCPublisher m | None \<Rightarrow> '''')"

definition Resolution_GetLanguage :: "Resolution \<Rightarrow> string" where
  "Resolution_GetLanguage d =
     (case Resolution.Meta d of Some m \<Rightarrow> Meta.DCLanguage m | None \<Rightarrow> '''')"

definition Resolution_GetRights :: "Resolution \<Rightarrow> string" where
  "Resolution_GetRights d =
     (case Resolution.Meta d of Some m \<Rightarrow> Meta.DCRights m | None \<Rightarrow> '''')"

definition Resolution_GetProcessedBy :: "Resolution \<Rightarrow> string" where
  "Resolution_GetProcessedBy d =
     (case Resolution.Meta d of Some m \<Rightarrow> Meta.ProcessedBy m | None \<Rightarrow> '''')"

definition Resolution_GetProcessedDate :: "Resolution \<Rightarrow> string" where
  "Resolution_GetProcessedDate d =
     (case Resolution.Meta d of Some m \<Rightarrow> Meta.ProcessedDate m | None \<Rightarrow> '''')"

subsection \<open>EngrossedAmendment\<close>

definition EngrossedAmendment_GetDocumentNumber :: "EngrossedAmendment \<Rightarrow> string" where
  "EngrossedAmendment_GetDocumentNumber d =
     (case EngrossedAmendment.AmendMeta d of Some m \<Rightarrow> AmendMeta.DocNumber m | None \<Rightarrow> '''')"

definition EngrossedAmendment_GetDocumentType :: "EngrossedAmendment \<Rightarrow> string" where
  "EngrossedAmendment_GetDocumentType d =
     (case EngrossedAmendment.AmendMeta d of Some m \<Rightarrow> AmendMeta.DCType m | None \<Rightarrow> '''')"

definition EngrossedAmendment_GetCongress :: "EngrossedAmendment \<Rightarrow> string" where
  "EngrossedAmendment_GetCongress d =
     (case EngrossedAmendment.AmendMeta d of Some m \<Rightarrow> AmendMeta.Congress m | None \<Rightarrow> '''')"

definition EngrossedAmendment_GetSession :: "EngrossedAmendment \<Rightarrow> string" where
  "EngrossedAmendment_GetSession d =
     (case EngrossedAmendment.AmendMeta d of Some m \<Rightarrow> AmendMeta.Session m | None \<Rightarrow> '''')"

definition EngrossedAmendment_GetTitle :: "EngrossedAmendment \<Rightarrow> string" where
  "EngrossedAmendment_GetTitle d =
     (case EngrossedAmendment.AmendMeta d of Some m \<Rightarrow> AmendMeta.DCTitle m | None \<Rightarrow> '''')"

definition EngrossedAmendment_GetStage :: "EngrossedAmendment \<Rightarrow> string" where
  "EngrossedAmendment_GetStage d =
     (case EngrossedAmendment.AmendMeta d of Some m \<Rightarrow> AmendMeta.DocStage m | None \<Rightarrow> '''')"

definition EngrossedAmendment_GetChamber :: "EngrossedAmendment \<Rightarrow> string" where
  "EngrossedAmendment_GetChamber d =
     (case EngrossedAmendment.AmendMeta d of Some m \<Rightarrow> AmendMeta.CurrentChamber m | None \<Rightarrow> '''')"

definition EngrossedAmendment_IsPublic :: "EngrossedAmendment \<Rightarrow> bool" where
  "EngrossedAmendment_IsPublic d =
     (case EngrossedAmendment.AmendMeta d of Some m \<Rightarrow> AmendMeta.PublicPrivate m = ''public'' | None \<Rightarrow> False)"

definition EngrossedAmendment_GetCitations :: "EngrossedAmendment \<Rightarrow> string list" where
  "EngrossedAmendment_GetCitations d =
     (case EngrossedAmendment.AmendMeta d of Some m \<Rightarrow> AmendMeta.CitableAs m | None \<Rightarrow> [])"

definition EngrossedAmendment_GetAmendmentDegree :: "EngrossedAmendment \<Rightarrow> string" where
  "EngrossedAmendment_GetAmendmentDegree d =
     (case EngrossedAmendment.AmendMeta d of Some m \<Rightarrow> AmendMeta.AmendDegree m | None \<Rightarrow> '''')"

definition EngrossedAmendment_GetActions :: "EngrossedAmendment \<Rightarrow> Action list" where
  "EngrossedAmendment_GetActions d =
     (case EngrossedAmendment.AmendPreface d of Some p \<Rightarrow> AmendPreface.Actions p | None \<Rightarrow> [])"

definition EngrossedAmendment_GetCreator :: "EngrossedAmendment \<Rightarrow> string" where
  "EngrossedAmendment_GetCreator d =
     (case EngrossedAmendment.AmendMeta d of Some m \<Rightarrow> AmendMeta.DCCreator m | None \<Rightarrow> '''')"

definition EngrossedAmendment_GetPublisher :: "EngrossedAmendment \<Rightarrow> string" where
  "EngrossedAmendment_GetPublisher d =
     (case EngrossedAmendment.AmendMeta d of Some m \<Rightarrow> AmendMeta.DCPublisher m | None \<Rightarrow> '''')"

definition EngrossedAmendment_GetLanguage :: "EngrossedAmendment \<Rightarrow> string" where
  "EngrossedAmendment_GetLanguage d =
     (case EngrossedAmendment.AmendMeta d of Some m \<Rightarrow> AmendMeta.DCLanguage m | None \<Rightarrow> '''')"

definition EngrossedAmendment_GetRights :: "EngrossedAmendment \<Rightarrow> string" where
  "EngrossedAmendment_GetRights d =
     (case EngrossedAmendment.AmendMeta d of Some m \<Rightarrow> AmendMeta.DCRights m | None \<Rightarrow> '''')"

definition EngrossedAmendment_GetProcessedBy :: "EngrossedAmendment \<Rightarrow> string" where
  "EngrossedAmendment_GetProcessedBy d =
     (case EngrossedAmendment.AmendMeta d of Some m \<Rightarrow> AmendMeta.ProcessedBy m | None \<Rightarrow> '''')"

definition EngrossedAmendment_GetProcessedDate :: "EngrossedAmendment \<Rightarrow> string" where
  "EngrossedAmendment_GetProcessedDate d =
     (case EngrossedAmendment.AmendMeta d of Some m \<Rightarrow> AmendMeta.ProcessedDate m | None \<Rightarrow> '''')"

subsection \<open>Amendment\<close>

definition Amendment_GetDocumentNumber :: "Amendment \<Rightarrow> string" where
  "Amendment_GetDocumentNumber d =
     (case Amendment.AmendMeta d of Some m \<Rightarrow> AmendMeta.DocNumber m | None \<Rightarrow> '''')"

definition Amendment_GetDocumentType :: "Amendment \<Rightarrow> string" where
  "Amendment_GetDocumentType d =
     (case Amendment.AmendMeta d of Some m \<Rightarrow> AmendMeta.DCType m | None \<Rightarrow> '''')"

definition Amendment_GetCongress :: "Amendment \<Rightarrow> string" where
  "Amendment_GetCongress d =
     (case Amendment.AmendMeta d of Some m \<Rightarrow> AmendMeta.Congress m | None \<Rightarrow> '''')"

definition Amendment_GetSession :: "Amendment \<Rightarrow> string" where
  "Amendment_GetSession d =
     (case Amendment.AmendMeta d of Some m \<Rightarrow> AmendMeta.Session m | None \<Rightarrow> '''')"

definition Amendment_GetTitle :: "Amendment \<Rightarrow> string" where
  "Amendment_GetTitle d =
     (case Amendment.AmendMeta d of Some m \<Rightarrow> AmendMeta.DCTitle m | None \<Rightarrow> '''')"

definition Amendment_GetStage :: "Amendment \<Rightarrow> string" where
  "Amendment_GetStage d =
     (case Amendment.AmendMeta d of Some m \<Rightarrow> AmendMeta.DocStage m | None \<Rightarrow> '''')"

definition Amendment_GetChamber :: "Amendment \<Rightarrow> string" where
  "Amendment_GetChamber d =
     (case Amendment.AmendMeta d of Some m \<Rightarrow> AmendMeta.CurrentChamber m | None \<Rightarrow> '''')"

definition Amendment_IsPublic :: "Amendment \<Rightarrow> bool" where
  "Amendment_IsPublic d =
     (case Amendment.AmendMeta d of Some m \<Rightarrow> AmendMeta.PublicPrivate m = ''public'' | None \<Rightarrow> False)"

definition Amendment_GetCitations :: "Amendment \<Rightarrow> string list" where
  "Amendment_GetCitations d =
     (case Amendment.AmendMeta d of Some m \<Rightarrow> AmendMeta.CitableAs m | None \<Rightarrow> [])"

definition Amendment_GetAmendmentDegree :: "Amendment \<Rightarrow> string" where
  "Amendment_GetAmendmentDegree d =
     (case Amendment.AmendMeta d of Some m \<Rightarrow> AmendMeta.AmendDegree m | None \<Rightarrow> '''')"

definition Amendment_GetActions :: "Amendment \<Rightarrow> Action list" where
  "Amendment_GetActions d =
     (case Amendment.AmendPreface d of Some p \<Rightarrow> AmendPreface.Actions p | None \<Rightarrow> [])"

definition Amendment_GetCreator :: "Amendment \<Rightarrow> string" where
  "Amendment_GetCreator d =
     (case Amendment.AmendMeta d of Some m \<Rightarrow> AmendMeta.DCCreator m | None \<Rightarrow> '''')"

definition Amendment_GetPublisher :: "Amendment \<Rightarrow> string" where
  "Amendment_GetPublisher d =
     (case Amendment.AmendMeta d of Some m \<Rightarrow> AmendMeta.DCPublisher m | None \<Rightarrow> '''')"

definition Amendment_GetLanguage :: "Amendment \<Rightarrow> string" where
  "Amendment_GetLanguage d =
     (case Amendment.AmendMeta d of Some m \<Rightarrow> AmendMeta.DCLanguage m | None \<Rightarrow> '''')"

definition Amendment_GetRights :: "Amendment \<Rightarrow> string" where
  "Amendment_GetRights d =
     (case Amendment.AmendMeta d of Some m \<Rightarrow> AmendMeta.DCRights m | None \<Rightarrow> '''')"

definition Amendment_GetProcessedBy :: "Amendment \<Rightarrow> string" where
  "Amendment_GetProcessedBy d =
     (case Amendment.AmendMeta d of Some m \<Rightarrow> AmendMeta.ProcessedBy m | None \<Rightarrow> '''')"

definition Amendment_GetProcessedDate :: "Amendment \<Rightarrow> string" where
  "Amendment_GetProcessedDate d =
     (case Amendment.AmendMeta d of Some m \<Rightarrow> AmendMeta.ProcessedDate m | None \<Rightarrow> '''')"

section \<open>Document-type detection\<close>

subsection \<open>The functions of package strings that the detector calls\<close>

text \<open>
  A Go string is a sequence of bytes. \<^verbatim>\<open>strings.Contains\<close> and \<^verbatim>\<open>strings.HasPrefix\<close> compare
  bytes. \<^verbatim>\<open>strings.TrimSpace\<close> removes leading and trailing white space as \<^verbatim>\<open>unicode.IsSpace\<close>
  defines it: the six ASCII characters tab, line feed, vertical tab, form feed, carriage
  return and space, and the code points U+0085, U+00A0, U+1680, U+2000 to U+200A, U+2028,
  U+2029, U+202F, U+205F and U+3000, here in their UTF-8 encoding.
\<close>

definition Contains :: "string \<Rightarrow> string \<Rightarrow> bool" where
  "Contains s substr = sublist substr s"

definition HasPrefix :: "string \<Rightarrow> string \<Rightarrow> bool" where
  "HasPrefix s pre = prefix pre s"

definition space_runes :: "string list" where
  "space_runes =
     [[CHR 0x09], [CHR 0x0A], [CHR 0x0B], [CHR 0x0C], [CHR 0x0D], [CHR 0x20],
      [CHR 0xC2, CHR 0x85], [CHR 0xC2, CHR 0xA0], [CHR 0xE1, CHR 0x9A, CHR 0x80],
      [CHR 0xE2, CHR 0x80, CHR 0x80], [CHR 0xE2, CHR 0x80, CHR 0x81],
      [CHR 0xE2, CHR 0x80, CHR 0x82], [CHR 0xE2, CHR 0x80, CHR 0x83],
      [CHR 0xE2, CHR 0x80, CHR 0x84], [CHR 0xE2, CHR 0x80, CHR 0x85],
      [CHR 0xE2, CHR 0x80, CHR 0x86], [CHR 0xE2, CHR 0x80, CHR 0x87],
      [CHR 0xE2, CHR 0x80, CHR 0x88], [CHR 0xE2, CHR 0x80, CHR 0x89],
      [CHR 0xE2, CHR 0x80, CHR 0x8A], [CHR 0xE2, CHR 0x80, CHR 0xA8],
      [CHR 0xE2, CHR 0x80, CHR 0xA9], [CHR 0xE2, CHR 0x80, CHR 0xAF],
      [CHR 0xE2, CHR 0x81, CHR 0x9F], [CHR 0xE3, CHR 0x80, CHR 0x80]]"

text \<open>
  \<open>trim_runes rs s\<close> removes from the front of \<open>s\<close>, as long as it can, one of the byte
  sequences \<open>rs\<close>.
\<close>

function trim_runes :: "string list \<Rightarrow> string \<Rightarrow> string" where
  "trim_runes rs s =
     (case find (\<lambda>r. r \<noteq> [] \<and> prefix r s) rs of
        Some r \<Rightarrow> trim_runes rs (drop (length r) s)
      | None \<Rightarrow> s)"
  by pat_completeness auto
termination
proof (relation "measure (\<lambda>(rs, s). length s)")
  show "wf (measure (\<lambda>(rs, s). length s))" by simp
next
  fix rs :: "string list" and s r :: string
  assume "find (\<lambda>r. r \<noteq> [] \<and> prefix r s) rs = Some r"
  then have "r \<noteq> []" and "prefix r s"
    by (auto simp: find_Some_iff)
  then have "s \<noteq> []" and "0 < length r"
    by auto
  then show "((rs, drop (length r) s), (rs, s)) \<in> measure (\<lambda>(rs, s). length s)"
    by simp
qed

definition TrimSpace :: "string \<Rightarrow> string" where
  "TrimSpace s = rev (trim_runes (map rev space_runes) (rev (trim_runes space_runes s)))"

subsection \<open>\<^verbatim>\<open>DetectDocumentType\<close>\<close>

text \<open>\<^verbatim>\<open>DocumentType\<close> is a string type with five constants.\<close>

type_synonym DocumentType = string

definition DocumentTypeBill :: DocumentType where
  "DocumentTypeBill = ''bill''"

definition DocumentTypeResolution :: DocumentType where
  "DocumentTypeResolution = ''resolution''"

definition DocumentTypeAmendment :: DocumentType where
  "DocumentTypeAmendment = ''amendment''"

definition DocumentTypeEngrossedAmendment :: DocumentType where
  "DocumentTypeEngrossedAmendment = ''engrossedAmendment''"

definition DocumentTypeUnknown :: DocumentType where
  "DocumentTypeUnknown = ''unknown''"

text \<open>
  The four tests in the order of the source; in the first, \<^verbatim>\<open>&&\<close> binds tighter than
  \<^verbatim>\<open>||\<close>.
\<close>

definition DetectDocumentType :: "string \<Rightarrow> DocumentType" where
  "DetectDocumentType content =
     (if Contains content ''<bill ''
         \<or> (HasPrefix (TrimSpace content) ''<?xml'' \<and> Contains content ''<bill'')
      then DocumentTypeBill
      else if Contains content ''<resolution '' \<or> Contains content ''<resolution>''
      then DocumentTypeResolution
      else if Contains content ''<engrossedAmendment ''
         \<or> Contains content ''<engrossedAmendment>''
      then DocumentTypeEngrossedAmendment
      else if Contains content ''<amendment '' \<or> Contains content ''<amendment>''
      then DocumentTypeAmendment
      else DocumentTypeUnknown)"

subsection \<open>The root element of an XML text\<close>

text \<open>
  The specification speaks of the root element of the input and of its local name. That
  notion is defined here independently of the detector, so that the two can be compared:
  \<open>xml_root_scan\<close> reads an XML text from the left, passes over white space, processing
  instructions (the XML declaration among them), comments and a document type declaration,
  and returns the name written in the first start tag together with the character that
  ends the name. The local name is the part of the name after the namespace prefix.
\<close>

datatype scan_state =
  Prolog | Lt | PI | PIQ | Bang | BangDash | Comment | CommentDash | CommentDashDash | Decl
  | InName string

definition is_xml_space :: "char \<Rightarrow> bool" where
  "is_xml_space c \<longleftrightarrow> c = CHR 0x20 \<or> c = CHR 0x09 \<or> c = CHR 0x0A \<or> c = CHR 0x0D"

definition ends_name :: "char \<Rightarrow> bool" where
  "ends_name c \<longleftrightarrow> is_xml_space c \<or> c = CHR ''/'' \<or> c = CHR ''>''"

fun xml_root_scan :: "scan_state \<Rightarrow> string \<Rightarrow> (string \<times> char) option" where
  "xml_root_scan st [] = None"
| "xml_root_scan Prolog (c # cs) =
     (if is_xml_space c then xml_root_scan Prolog cs
      else if c = CHR ''<'' then xml_root_scan Lt cs else None)"
| "xml_root_scan Lt (c # cs) =
     (if c = CHR ''?'' then xml_root_scan PI cs
      else if c = CHR ''!'' then xml_root_scan Bang cs
      else if ends_name c then None else xml_root_scan (InName [c]) cs)"
| "xml_root_scan PI (c # cs) =
     (if c = CHR ''?'' then xml_root_scan PIQ cs else xml_root_scan PI cs)"
| "xml_root_scan PIQ (c # cs) =
     (if c = CHR ''>'' then xml_root_scan Prolog cs
      else if c = CHR ''?'' then xml_root_scan PIQ cs else xml_root_scan PI cs)"
| "xml_root_scan Bang (c # cs) =
     (if c = CHR ''-'' then xml_root_scan BangDash cs else xml_root_scan Decl cs)"
| "xml_root_scan BangDash (c # cs) =
     (if c = CHR ''-'' then xml_root_scan Comment cs else None)"
| "xml_root_scan Comment (c # cs) =
     (if c = CHR ''-'' then xml_root_scan CommentDash cs else xml_root_scan Comment cs)"
| "xml_root_scan CommentDash (c # cs) =
     (if c = CHR ''-'' then xml_root_scan CommentDashDash cs else xml_root_scan Comment cs)"
| "xml_root_scan CommentDashDash (c # cs) =
     (if c = CHR ''>'' then xml_root_scan Prolog cs else None)"
| "xml_root_scan Decl (c # cs) =
     (if c = CHR ''>'' then xml_root_scan Prolog cs else xml_root_scan Decl cs)"
| "xml_root_scan (InName acc) (c # cs) =
     (if ends_name c then Some (acc, c) else xml_root_scan (InName (acc @ [c])) cs)"

definition local_part :: "string \<Rightarrow> string" where
  "local_part n = (if CHR '':'' \<in> set n then tl (dropWhile (\<lambda>c. c \<noteq> CHR '':'') n) else n)"

definition xml_root_tag :: "string \<Rightarrow> (string \<times> char) option" where
  "xml_root_tag content = xml_root_scan Prolog content"

definition xml_root_local_name :: "string \<Rightarrow> string option" where
  "xml_root_local_name content = map_option (\<lambda>(n, c). local_part n) (xml_root_tag content)"

text \<open>The document type that the specification assigns to a root element name.\<close>

definition type_of_root :: "string \<Rightarrow> DocumentType" where
  "type_of_root n =
     (if n = ''bill'' then DocumentTypeBill
      else if n = ''resolution'' then DocumentTypeResolution
      else if n = ''amendment'' then DocumentTypeAmendment
      else if n = ''engrossedAmendment'' then DocumentTypeEngrossedAmendment
      else DocumentTypeUnknown)"

section \<open>Sample values\<close>

text \<open>
  Concrete values on which the theorems below are instantiated: a sponsor that carries both
  identifiers, a numbered section, a metadata block of a public Senate bill, and documents
  of each variant with and without their nested blocks.
\<close>

definition sponsor_both :: Sponsor where
  "sponsor_both =
     \<lparr>Sponsor.XMLName = \<lparr>Space = '''', Local = ''sponsor''\<rparr>, SenateID = ''S221'',
      HouseID = ''H001'', Text = ''Mr. Vitter'', Inline = []\<rparr>"

definition cosponsor_house :: Cosponsor where
  "cosponsor_house =
     \<lparr>Cosponsor.XMLName = \<lparr>Space = '''', Local = ''cosponsor''\<rparr>, SenateID = '''',
      HouseID = ''H002'', Text = ''Mr. Smith'', Inline = []\<rparr>"

definition num_one :: Num where
  "num_one = \<lparr>Num.XMLName = \<lparr>Space = '''', Local = ''num''\<rparr>, Value = ''1'',
     Text = ''SECTION 1.''\<rparr>"

definition section_one :: Section where
  "section_one =
     Section.Section \<lparr>Space = '''', Local = ''section''\<rparr> ''s1'' ''/us/bill/114/s/32/s1'' '''' ''''
       (Some num_one) None None None [] []"

definition section_one_reworded :: Section where
  "section_one_reworded =
     Section.Section \<lparr>Space = '''', Local = ''section''\<rparr> ''s1'' ''/us/bill/114/s/32/s1'' '''' ''''
       (Some (num_one\<lparr>Num.Text := ''Sec. 1''\<rparr>)) None None None [] []"

definition meta_public :: Meta where
  "meta_public =
     \<lparr>Meta.XMLName = \<lparr>Space = '''', Local = ''meta''\<rparr>, DCTitle = ''A bill'',
      DCType = ''Senate Bill'', DCCreator = '''', DCPublisher = '''', DCFormat = '''',
      DCLanguage = ''EN'', DCRights = '''', DocNumber = ''32'', CitableAs = [''S. 32''],
      DocStage = ''Introduced in Senate'', CurrentChamber = ''SENATE'', Congress = ''114'',
      Session = ''1'', PublicPrivate = ''public'', ProcessedBy = '''', ProcessedDate = '''',
      RelatedDocuments = [], PopularName = ''''\<rparr>"

definition amend_meta_public :: AmendMeta where
  "amend_meta_public =
     \<lparr>AmendMeta.XMLName = \<lparr>Space = '''', Local = ''amendMeta''\<rparr>, DCTitle = ''An amendment'',
      DCType = ''Engrossed Amendment Senate'', DCCreator = '''', DCPublisher = '''',
      DCFormat = '''', DCLanguage = ''EN'', DCRights = '''', DocNumber = ''1865'',
      CitableAs = [], DocStage = ''Engrossed Amendment Senate'', CurrentChamber = ''SENATE'',
      AmendDegree = ''first'', Congress = ''116'', Session = ''1'', PublicPrivate = ''public'',
      ProcessedBy = '''', ProcessedDate = ''''\<rparr>"

definition bill_bare :: Bill where
  "bill_bare =
     \<lparr>Bill.XMLName = \<lparr>Space = '''', Local = ''bill''\<rparr>, XMLNS = '''', XMLNSDC = '''',
      XMLNSHTML = '''', XMLNSUSLM = '''', XMLNSXSI = '''', XSISchemaLocation = '''',
      XMLLang = '''', Meta = None, Preface = None, Main = None, EndMarker = ''''\<rparr>"

definition resolution_bare :: Resolution where
  "resolution_bare =
     \<lparr>Resolution.XMLName = \<lparr>Space = '''', Local = ''resolution''\<rparr>, XMLNS = '''',
      XMLNSDC = '''', XMLNSHTML = '''', XMLNSUSLM = '''', XMLNSXSI = '''',
      XSISchemaLocation = '''', XMLLang = '''', Meta = None, Preface = None, Main = None,
      EndMarker = ''''\<rparr>"

definition engrossed_bare :: EngrossedAmendment where
  "engrossed_bare =
     \<lparr>EngrossedAmendment.XMLName = \<lparr>Space = '''', Local = ''engrossedAmendment''\<rparr>,
      XMLNS = '''', XMLNSDC = '''', XMLNSHTML = '''', XMLNSUSLM = '''', XMLNSXSI = '''',
      StyleType = '''', XSISchemaLocation = '''', XMLLang = '''', AmendMeta = None,
      AmendPreface = None, AmendMain = None, Signatures = None, Endorsement = None\<rparr>"

definition amendment_bare :: Amendment where
  "amendment_bare =
     \<lparr>Amendment.XMLName = \<lparr>Space = '''', Local = ''amendment''\<rparr>, XMLNS = '''',
      XMLNSDC = '''', XMLNSHTML = '''', XMLNSUSLM = '''', XMLNSXSI = '''',
      XSISchemaLocation = '''', XMLLang = '''', AmendMeta = None, AmendPreface = None,
      AmendMain = None\<rparr>"

text \<open>
  Inputs of the detector: a resolution whose body holds a \<^verbatim>\<open>bill\<close> element, the same
  resolution with an empty body, a bill without XML declaration and without attributes,
  and an engrossed amendment whose root name is followed by a line break, with an
  \<^verbatim>\<open>amendment\<close> element in its body.
\<close>

definition resolution_quoting_bill :: string where
  "resolution_quoting_bill = ''<resolution><bill ></bill ></resolution>''"

definition resolution_plain :: string where
  "resolution_plain = ''<resolution></resolution>''"

definition bill_plain :: string where
  "bill_plain = ''<bill></bill>''"

definition engrossed_line_break :: string where
  "engrossed_line_break =
     ''<engrossedAmendment'' @ [CHR 0x0A] @ ''><amendment></amendment></engrossedAmendment>''"

definition engrossed_with_space :: string where
  "engrossed_with_space =
     ''<engrossedAmendment ><amendment></amendment></engrossedAmendment>''"

section \<open>Properties of the accessors\<close>

text \<open>
  Claim C7. For every Sponsor and every Cosponsor, \<^verbatim>\<open>GetID\<close> returns the Senate identifier
  whenever it is non-empty (also when the House identifier is present as well), otherwise
  the House identifier when that is non-empty, otherwise the empty string.
\<close>

theorem GetID_senate_first:
  "Sponsor_GetID s =
     (if Sponsor.SenateID s \<noteq> '''' then Sponsor.SenateID s
      else if Sponsor.HouseID s \<noteq> '''' then Sponsor.HouseID s else '''')
   \<and> Cosponsor_GetID c =
     (if Cosponsor.SenateID c \<noteq> '''' then Cosponsor.SenateID c
      else if Cosponsor.HouseID c \<noteq> '''' then Cosponsor.HouseID c else '''')"
  by (simp add: Sponsor_GetID_def Cosponsor_GetID_def)

theorem GetID_senate_first_witness:
  "Sponsor_GetID sponsor_both = ''S221'' \<and> Cosponsor_GetID cosponsor_house = ''H002''"
  using GetID_senate_first [of sponsor_both cosponsor_house]
  by (simp add: sponsor_both_def cosponsor_house_def)

text \<open>
  Claim C9. For every Section, \<^verbatim>\<open>GetNumValue\<close> returns the \<^verbatim>\<open>value\<close> attribute of the nested
  Num element when that element is present, whatever the displayed text of the Num element
  is, and the empty string when the Num element is absent.
\<close>

theorem GetNumValue_is_value_attribute:
  "(Section.Num s = Some n \<longrightarrow> Section_GetNumValue s = Num.Value n)
   \<and> (Section.Num s = Some n \<and> Section.Num s' = Some (n\<lparr>Num.Text := t\<rparr>)
        \<longrightarrow> Section_GetNumValue s' = Section_GetNumValue s)
   \<and> (Section.Num s = None \<longrightarrow> Section_GetNumValue s = '''')"
  by (simp add: Section_GetNumValue_def)

theorem GetNumValue_is_value_attribute_witness:
  "Section.Num section_one = Some num_one
   \<and> Section.Num section_one_reworded = Some (num_one\<lparr>Num.Text := ''Sec. 1''\<rparr>)
   \<and> Section_GetNumValue section_one = ''1''
   \<and> Section_GetNumValue section_one_reworded = Section_GetNumValue section_one"
  using GetNumValue_is_value_attribute
          [of section_one num_one section_one_reworded "''Sec. 1''"]
  by (simp add: section_one_def section_one_reworded_def num_one_def)


text \<open>
  Claim C10. For every Bill, Resolution, EngrossedAmendment and Amendment, \<^verbatim>\<open>IsPublic\<close> is
  true exactly when the metadata block is present and its \<^verbatim>\<open>PublicPrivate\<close> field is the
  string "public", compared byte for byte; the empty string, "Public", "private" and an
  absent metadata block all give false.
\<close>

theorem IsPublic_iff_public:
  "(Bill_IsPublic b \<longleftrightarrow>
      (\<exists>m. Bill.Meta b = Some m \<and> Meta.PublicPrivate m = ''public''))
   \<and> (Bill.Meta b = None \<longrightarrow> \<not> Bill_IsPublic b)
   \<and> (\<forall>m. Bill.Meta b = Some m \<and> Meta.PublicPrivate m \<in> {'''', ''Public'', ''private''}
        \<longrightarrow> \<not> Bill_IsPublic b)
   \<and> (Resolution_IsPublic r \<longleftrightarrow>
      (\<exists>m. Resolution.Meta r = Some m \<and> Meta.PublicPrivate m = ''public''))
   \<and> (Resolution.Meta r = None \<longrightarrow> \<not> Resolution_IsPublic r)
   \<and> (\<forall>m. Resolution.Meta r = Some m \<and> Meta.PublicPrivate m \<in> {'''', ''Public'', ''private''}
        \<longrightarrow> \<not> Resolution_IsPublic r)
   \<and> (EngrossedAmendment_IsPublic e \<longleftrightarrow>
      (\<exists>m. EngrossedAmendment.AmendMeta e = Some m \<and> AmendMeta.PublicPrivate m = ''public''))
   \<and> (EngrossedAmendment.AmendMeta e = None \<longrightarrow> \<not> EngrossedAmendment_IsPublic e)
   \<and> (\<forall>m. EngrossedAmendment.AmendMeta e = Some m \<and> AmendMeta.PublicPrivate m \<in> {'''', ''Public'', ''private''}
        \<longrightarrow> \<not> EngrossedAmendment_IsPublic e)
   \<and> (Amendment_IsPublic a \<longleftrightarrow>
      (\<exists>m. Amendment.AmendMeta a = Some m \<and> AmendMeta.PublicPrivate m = ''public''))
   \<and> (Amendment.AmendMeta a = None \<longrightarrow> \<not> Amendment_IsPublic a)
   \<and> (\<forall>m. Amendment.AmendMeta a = Some m \<and> AmendMeta.PublicPrivate m \<in> {'''', ''Public'', ''private''}
        \<longrightarrow> \<not> Amendment_IsPublic a)"
  by (auto simp: Bill_IsPublic_def Resolution_IsPublic_def EngrossedAmendment_IsPublic_def
        Amendment_IsPublic_def split: option.splits)

theorem IsPublic_iff_public_witness:
  "Bill_IsPublic (bill_bare\<lparr>Bill.Meta := Some meta_public\<rparr>)
   \<and> \<not> Bill_IsPublic (bill_bare\<lparr>Bill.Meta := Some (meta_public\<lparr>Meta.PublicPrivate := ''Public''\<rparr>)\<rparr>)
   \<and> \<not> Resolution_IsPublic resolution_bare
   \<and> EngrossedAmendment_IsPublic
         (engrossed_bare\<lparr>EngrossedAmendment.AmendMeta := Some amend_meta_public\<rparr>)
   \<and> \<not> Amendment_IsPublic
         (amendment_bare\<lparr>Amendment.AmendMeta :=
            Some (amend_meta_public\<lparr>AmendMeta.PublicPrivate := ''private''\<rparr>)\<rparr>)"
  using IsPublic_iff_public
          [of "bill_bare\<lparr>Bill.Meta := Some meta_public\<rparr>" resolution_bare
              "engrossed_bare\<lparr>EngrossedAmendment.AmendMeta := Some amend_meta_public\<rparr>"
              "amendment_bare\<lparr>Amendment.AmendMeta :=
                 Some (amend_meta_public\<lparr>AmendMeta.PublicPrivate := ''private''\<rparr>)\<rparr>"]
        IsPublic_iff_public
          [of "bill_bare\<lparr>Bill.Meta := Some (meta_public\<lparr>Meta.PublicPrivate := ''Public''\<rparr>)\<rparr>"]
  by (simp add: bill_bare_def resolution_bare_def engrossed_bare_def amendment_bare_def
        meta_public_def amend_meta_public_def)


text \<open>
  Claim C6. The accessors are total projections; none fails on an absent nested block. For
  a Bill or Resolution without Preface, \<^verbatim>\<open>GetSponsors\<close>, \<^verbatim>\<open>GetCosponsors\<close>, \<^verbatim>\<open>GetCommittees\<close>
  and \<^verbatim>\<open>GetActions\<close> return the empty sequence; without Main, \<^verbatim>\<open>GetSections\<close> returns the
  empty sequence; without Meta, every metadata accessor returns the empty string or the
  empty sequence. The same holds for the accessors that Amendment and EngrossedAmendment
  have, on their AmendPreface and AmendMeta.
\<close>

lemmas accessor_defs =
  Bill_GetSponsors_def Bill_GetCosponsors_def Bill_GetCommittees_def Bill_GetActions_def
  Bill_GetSections_def Bill_GetDocumentNumber_def Bill_GetDocumentType_def
  Bill_GetCongress_def Bill_GetSession_def Bill_GetTitle_def Bill_GetStage_def
  Bill_GetChamber_def Bill_GetCreator_def Bill_GetPublisher_def Bill_GetLanguage_def
  Bill_GetRights_def Bill_GetProcessedBy_def Bill_GetProcessedDate_def
  Bill_GetCitations_def Resolution_GetSponsors_def Resolution_GetCosponsors_def
  Resolution_GetCommittees_def Resolution_GetActions_def Resolution_GetSections_def
  Resolution_GetDocumentNumber_def Resolution_GetDocumentType_def
  Resolution_GetCongress_def Resolution_GetSession_def Resolution_GetTitle_def
  Resolution_GetStage_def Resolution_GetChamber_def Resolution_GetCreator_def
  Resolution_GetPublisher_def Resolution_GetLanguage_def Resolution_GetRights_def
  Resolution_GetProcessedBy_def Resolution_GetProcessedDate_def Resolution_GetCitations_def
  EngrossedAmendment_GetActions_def EngrossedAmendment_GetDocumentNumber_def
  EngrossedAmendment_GetDocumentType_def EngrossedAmendment_GetCongress_def
  EngrossedAmendment_GetSession_def EngrossedAmendment_GetTitle_def
  EngrossedAmendment_GetStage_def EngrossedAmendment_GetChamber_def
  EngrossedAmendment_GetCreator_def EngrossedAmendment_GetPublisher_def
  EngrossedAmendment_GetLanguage_def EngrossedAmendment_GetRights_def
  EngrossedAmendment_GetProcessedBy_def EngrossedAmendment_GetProcessedDate_def
  EngrossedAmendment_GetAmendmentDegree_def EngrossedAmendment_GetCitations_def
  Amendment_GetActions_def Amendment_GetDocumentNumber_def Amendment_GetDocumentType_def
  Amendment_GetCongress_def Amendment_GetSession_def Amendment_GetTitle_def
  Amendment_GetStage_def Amendment_GetChamber_def Amendment_GetCreator_def
  Amendment_GetPublisher_def Amendment_GetLanguage_def Amendment_GetRights_def
  Amendment_GetProcessedBy_def Amendment_GetProcessedDate_def
  Amendment_GetAmendmentDegree_def Amendment_GetCitations_def

theorem accessors_absent_block:
  "(Bill.Preface b = None \<longrightarrow>
      Bill_GetSponsors b = []
      \<and> Bill_GetCosponsors b = []
      \<and> Bill_GetCommittees b = []
      \<and> Bill_GetActions b = [])
   \<and> (Bill.Main b = None \<longrightarrow> Bill_GetSections b = [])
   \<and> (Bill.Meta b = None \<longrightarrow>
      Bill_GetDocumentNumber b = ''''
      \<and> Bill_GetDocumentType b = ''''
      \<and> Bill_GetCongress b = ''''
      \<and> Bill_GetSession b = ''''
      \<and> Bill_GetTitle b = ''''
      \<and> Bill_GetStage b = ''''
      \<and> Bill_GetChamber b = ''''
      \<and> Bill_GetCreator b = ''''
      \<and> Bill_GetPublisher b = ''''
      \<and> Bill_GetLanguage b = ''''
      \<and> Bill_GetRights b = ''''
      \<and> Bill_GetProcessedBy b = ''''
      \<and> Bill_GetProcessedDate b = ''''
      \<and> Bill_GetCitations b = [])
   \<and> (Resolution.Preface r = None \<longrightarrow>
      Resolution_GetSponsors r = []
      \<and> Resolution_GetCosponsors r = []
      \<and> Resolution_GetCommittees r = []
      \<and> Resolution_GetActions r = [])
   \<and> (Resolution.Main r = None \<longrightarrow> Resolution_GetSections r = [])
   \<and> (Resolution.Meta r = None \<longrightarrow>
      Resolution_GetDocumentNumber r = ''''
      \<and> Resolution_GetDocumentType r = ''''
      \<and> Resolution_GetCongress r = ''''
      \<and> Resolution_GetSession r = ''''
      \<and> Resolution_GetTitle r = ''''
      \<and> Resolution_GetStage r = ''''
      \<and> Resolution_GetChamber r = ''''
      \<and> Resolution_GetCreator r = ''''
      \<and> Resolution_GetPublisher r = ''''
      \<and> Resolution_GetLanguage r = ''''
      \<and> Resolution_GetRights r = ''''
      \<and> Resolution_GetProcessedBy r = ''''
      \<and> Resolution_GetProcessedDate r = ''''
      \<and> Resolution_GetCitations r = [])
   \<and> (EngrossedAmendment.AmendPreface e = None \<longrightarrow>
      EngrossedAmendment_GetActions e = [])
   \<and> (EngrossedAmendment.AmendMeta e = None \<longrightarrow>
      EngrossedAmendment_GetDocumentNumber e = ''''
      \<and> EngrossedAmendment_GetDocumentType e = ''''
      \<and> EngrossedAmendment_GetCongress e = ''''
      \<and> EngrossedAmendment_GetSession e = ''''
      \<and> EngrossedAmendment_GetTitle e = ''''
      \<and> EngrossedAmendment_GetStage e = ''''
      \<and> EngrossedAmendment_GetChamber e = ''''
      \<and> EngrossedAmendment_GetCreator e = ''''
      \<and> EngrossedAmendment_GetPublisher e = ''''
      \<and> EngrossedAmendment_GetLanguage e = ''''
      \<and> EngrossedAmendment_GetRights e = ''''
      \<and> EngrossedAmendment_GetProcessedBy e = ''''
      \<and> EngrossedAmendment_GetProcessedDate e = ''''
      \<and> EngrossedAmendment_GetAmendmentDegree e = ''''
      \<and> EngrossedAmendment_GetCitations e = [])
   \<and> (Amendment.AmendPreface a = None \<longrightarrow>
      Amendment_GetActions a = [])
   \<and> (Amendment.AmendMeta a = None \<longrightarrow>
      Amendment_GetDocumentNumber a = ''''
      \<and> Amendment_GetDocumentType a = ''''
      \<and> Amendment_GetCongress a = ''''
      \<and> Amendment_GetSession a = ''''
      \<and> Amendment_GetTitle a = ''''
      \<and> Amendment_GetStage a = ''''
      \<and> Amendment_GetChamber a = ''''
      \<and> Amendment_GetCreator a = ''''
      \<and> Amendment_GetPublisher a = ''''
      \<and> Amendment_GetLanguage a = ''''
      \<and> Amendment_GetRights a = ''''
      \<and> Amendment_GetProcessedBy a = ''''
      \<and> Amendment_GetProcessedDate a = ''''
      \<and> Amendment_GetAmendmentDegree a = ''''
      \<and> Amendment_GetCitations a = [])"
  by (simp add: accessor_defs)

theorem accessors_absent_block_witness:
  "Bill.Preface bill_bare = None
   \<and> Bill.Main bill_bare = None
   \<and> Bill.Meta bill_bare = None
   \<and> Bill_GetSponsors bill_bare = []
   \<and> Bill_GetCosponsors bill_bare = []
   \<and> Bill_GetCommittees bill_bare = []
   \<and> Bill_GetActions bill_bare = []
   \<and> Bill_GetSections bill_bare = []
   \<and> Bill_GetDocumentNumber bill_bare = ''''
   \<and> Bill_GetCitations bill_bare = []
   \<and> Resolution.Preface resolution_bare = None
   \<and> Resolution.Main resolution_bare = None
   \<and> Resolution.Meta resolution_bare = None
   \<and> Resolution_GetSponsors resolution_bare = []
   \<and> Resolution_GetCosponsors resolution_bare = []
   \<and> Resolution_GetCommittees resolution_bare = []
   \<and> Resolution_GetActions resolution_bare = []
   \<and> Resolution_GetSections resolution_bare = []
   \<and> Resolution_GetDocumentNumber resolution_bare = ''''
   \<and> Resolution_GetCitations resolution_bare = []
   \<and> EngrossedAmendment.AmendPreface engrossed_bare = None
   \<and> EngrossedAmendment.AmendMeta engrossed_bare = None
   \<and> EngrossedAmendment_GetActions engrossed_bare = []
   \<and> EngrossedAmendment_GetDocumentNumber engrossed_bare = ''''
   \<and> EngrossedAmendment_GetCitations engrossed_bare = []
   \<and> Amendment.AmendPreface amendment_bare = None
   \<and> Amendment.AmendMeta amendment_bare = None
   \<and> Amendment_GetActions amendment_bare = []
   \<and> Amendment_GetDocumentNumber amendment_bare = ''''
   \<and> Amendment_GetCitations amendment_bare = []"
  using accessors_absent_block [of bill_bare resolution_bare engrossed_bare amendment_bare]
  by (simp add: bill_bare_def resolution_bare_def engrossed_bare_def amendment_bare_def)


end
